theory Spec2Isabelle
  imports Main
begin

section \<open>Values\<close>

text \<open>
  The value of a member of the request's JSON object, and of an attribute of a
  \<open>Contact\<close> instance: Python's \<open>None\<close> (JSON \<open>null\<close>) or a string. The three
  columns of \<open>models.py\<close> are \<open>db.String\<close> columns and the API's bodies carry strings.
\<close>

datatype json = JNull | JStr string

text \<open>The request body \<open>request.json\<close>: a dict from member names to values.\<close>

type_synonym body = "string \<rightharpoonup> json"

text \<open>\<open>data.get(key, default)\<close>; \<open>data.get(key)\<close> is \<open>dict_get data key JNull\<close>.\<close>

definition dict_get :: "body \<Rightarrow> string \<Rightarrow> json \<Rightarrow> json" where
  "dict_get data k dflt = (case data k of None \<Rightarrow> dflt | Some v \<Rightarrow> v)"

text \<open>Python's truth value, as \<open>not first_name\<close> tests it: \<open>None\<close> and \<open>""\<close> are false.\<close>

fun truthy :: "json \<Rightarrow> bool" where
  "truthy JNull = False"
| "truthy (JStr s) = (s \<noteq> [])"

text \<open>
  What a handler hands to \<open>jsonify\<close>: ints, strings, lists, dicts, and the set
  literal \<open>{"User updates!!!"}\<close> of the update and delete handlers.
\<close>

datatype pyval =
    PInt int
  | PStr string
  | PList "pyval list"
  | PDict "(string \<times> pyval) list"
  | PSet "pyval list"

datatype exn = IntegrityError | SQLAlchemyError | TypeError

text \<open>
  \<open>jsonify\<close> serialises its argument with the JSON encoder, which raises \<open>TypeError\<close>
  on a set (\<open>Object of type set is not JSON serializable\<close>).
\<close>

fun serializable :: "pyval \<Rightarrow> bool" where
  "serializable (PInt i) = True"
| "serializable (PStr s) = True"
| "serializable (PList xs) = list_all serializable xs"
| "serializable (PDict kvs) = list_all serializable (map snd kvs)"
| "serializable (PSet xs) = False"

definition jsonify :: "pyval \<Rightarrow> exn + pyval" where
  "jsonify v = (if serializable v then Inr v else Inl TypeError)"

text \<open>A response: the body and the status code (200 when the handler gives none).\<close>

type_synonym response = "pyval \<times> nat"

definition respond :: "exn + pyval \<Rightarrow> nat \<Rightarrow> exn + response" where
  "respond r st = (case r of Inl e \<Rightarrow> Inl e | Inr j \<Rightarrow> Inr (j, st))"

definition status :: "exn + response \<Rightarrow> nat option" where
  "status r = (case r of Inl e \<Rightarrow> None | Inr (j, st) \<Rightarrow> Some st)"

section \<open>The Contact model (models.py)\<close>

text \<open>
  A persisted row of the table: \<open>id\<close> is the integer primary key, the three other
  columns are \<open>nullable=False\<close>, so a row holds a string in each.
\<close>

record contact =
  contact_id :: int
  first_name :: string
  last_name :: string
  email :: string

definition to_json :: "contact \<Rightarrow> pyval" where
  "to_json c = PDict [(''id'', PInt (contact_id c)),
                      (''firstName'', PStr (first_name c)),
                      (''lastName'', PStr (last_name c)),
                      (''email'', PStr (email c))]"

section \<open>The table and the session\<close>

text \<open>
  Modelled from the spec: the storage engine behind \<open>config.db\<close>, which is not among
  the sources. The persisted state is one table with the columns \<open>id\<close> (primary key,
  assigned by the store), \<open>first_name\<close>, \<open>last_name\<close> and \<open>email\<close> (unique); rows are
  kept in insertion order, the first row of an empty table gets id 1, and the
  column lengths 80 and 120 are not enforced. The constraints checked are those
  \<open>models.py\<close> declares: \<open>nullable=False\<close> on the three columns and \<open>unique=True\<close> on
  \<open>email\<close>; a violation is an \<open>IntegrityError\<close>.
\<close>

definition next_id :: "contact list \<Rightarrow> int" where
  "next_id t = 1 + foldr max (map contact_id t) 0"

text \<open>\<open>INSERT INTO contact (first_name, last_name, email) VALUES (?, ?, ?)\<close>\<close>

fun insert_row :: "contact list \<Rightarrow> json \<Rightarrow> json \<Rightarrow> json \<Rightarrow> exn + contact list" where
  "insert_row t (JStr f) (JStr l) (JStr e) =
     (if e \<in> set (map email t) then Inl IntegrityError
      else Inr (t @ [\<lparr>contact_id = next_id t, first_name = f, last_name = l, email = e\<rparr>]))"
| "insert_row t _ _ _ = Inl IntegrityError"

text \<open>
  \<open>UPDATE contact SET ... WHERE id = ?\<close>. The unit of work sets only the attributes
  whose value differs from the loaded one and emits nothing when none does.
\<close>

fun update_row :: "contact list \<Rightarrow> int \<Rightarrow> json \<Rightarrow> json \<Rightarrow> json \<Rightarrow> exn + contact list" where
  "update_row t uid (JStr f) (JStr l) (JStr e) =
     (case find (\<lambda>r. contact_id r = uid) t of
        None \<Rightarrow> Inr t
      | Some c \<Rightarrow>
          if f = first_name c \<and> l = last_name c \<and> e = email c then Inr t
          else if e \<noteq> email c \<and> e \<in> set (map email t) then Inl IntegrityError
          else Inr (map (\<lambda>r. if contact_id r = uid
                              then r\<lparr>first_name := f, last_name := l, email := e\<rparr>
                              else r) t))"
| "update_row t uid _ _ _ = Inl IntegrityError"

text \<open>\<open>DELETE FROM contact WHERE id = ?\<close>\<close>

definition delete_row :: "contact list \<Rightarrow> int \<Rightarrow> exn + contact list" where
  "delete_row t uid = Inr (filter (\<lambda>r. contact_id r \<noteq> uid) t)"

text \<open>
  The session's unit of work: a new instance with its three attributes, a loaded
  instance with its attributes as last assigned, an instance marked for deletion.
\<close>

datatype pending =
    New json json json
  | Dirty int json json json
  | Deleted int

record db =
  table :: "contact list"
  session :: "pending list"

fun flush_one :: "contact list \<Rightarrow> pending \<Rightarrow> exn + contact list" where
  "flush_one t (New f l e) = insert_row t f l e"
| "flush_one t (Dirty uid f l e) = update_row t uid f l e"
| "flush_one t (Deleted uid) = delete_row t uid"

fun flush :: "contact list \<Rightarrow> pending list \<Rightarrow> exn + contact list" where
  "flush t [] = Inr t"
| "flush t (p # ps) = (case flush_one t p of Inl e \<Rightarrow> Inl e | Inr t' \<Rightarrow> flush t' ps)"

text \<open>
  \<open>db.session.add\<close>, \<open>db.session.delete\<close>, \<open>db.session.commit\<close> and
  \<open>db.session.rollback\<close>. A commit that raises writes nothing and leaves the
  unit of work in the session until it is rolled back.
\<close>

definition session_add :: "db \<Rightarrow> pending \<Rightarrow> db" where
  "session_add d p = d\<lparr>session := session d @ [p]\<rparr>"

definition session_delete :: "db \<Rightarrow> contact \<Rightarrow> db" where
  "session_delete d c = d\<lparr>session := session d @ [Deleted (contact_id c)]\<rparr>"

definition session_commit :: "db \<Rightarrow> exn + db" where
  "session_commit d =
     (case flush (table d) (session d) of
        Inl e \<Rightarrow> Inl e
      | Inr t' \<Rightarrow> Inr \<lparr>table = t', session = []\<rparr>)"

definition session_rollback :: "db \<Rightarrow> db" where
  "session_rollback d = d\<lparr>session := []\<rparr>"

text \<open>\<open>Contact.query.all()\<close> and \<open>Contact.query.get(user_id)\<close>\<close>

definition query_all :: "db \<Rightarrow> contact list" where
  "query_all d = table d"

definition query_get :: "db \<Rightarrow> int \<Rightarrow> contact option" where
  "query_get d uid = find (\<lambda>r. contact_id r = uid) (table d)"

text \<open>Each request runs in an application context of its own, with a new session.\<close>

definition app_context :: "contact list \<Rightarrow> db" where
  "app_context t = \<lparr>table = t, session = []\<rparr>"

section \<open>The handlers (main.py)\<close>

definition get_contacts :: "db \<Rightarrow> exn + response" where
  "get_contacts d =
     (let contacts = query_all d;
          json_contacts = map to_json contacts
      in respond (jsonify (PDict [(''contacts'', PList json_contacts)])) 200)"

definition create_contact :: "db \<Rightarrow> body \<Rightarrow> (exn + response) \<times> db" where
  "create_contact d data =
     (let first_name = dict_get data ''firstName'' JNull;
          last_name = dict_get data ''lastName'' JNull;
          email = dict_get data ''email'' JNull
      in if \<not> truthy first_name \<or> \<not> truthy last_name \<or> \<not> truthy email
         then (respond (jsonify (PDict [(''message'',
                 PStr ''You must include a first name, lasat name and email'')])) 400, d)
         else
           let new_contact = New first_name last_name email;
               d1 = session_add d new_contact
           in case session_commit d1 of
                Inr d2 \<Rightarrow>
                  (respond (jsonify (PDict [(''message'', PStr ''User Created'')])) 201, d2)
              | Inl IntegrityError \<Rightarrow>
                  (respond (jsonify (PDict [(''message'',
                     PStr ''Integrity error: a contact with similar details already exists.'')]))
                     400, session_rollback d1)
              | Inl SQLAlchemyError \<Rightarrow>
                  (respond (jsonify (PDict [(''message'', PStr ''Database error occurred.'')]))
                     500, session_rollback d1)
              | Inl e \<Rightarrow> (Inl e, d1))"

definition updata_contact :: "db \<Rightarrow> int \<Rightarrow> body \<Rightarrow> (exn + response) \<times> db" where
  "updata_contact d user_id data =
     (case query_get d user_id of
        None \<Rightarrow> (respond (jsonify (PDict [(''message'', PStr ''User not found'')])) 400, d)
      | Some contact \<Rightarrow>
          let f = dict_get data ''firstName'' (JStr (first_name contact));
              l = dict_get data ''lastName'' (JStr (last_name contact));
              e = dict_get data ''email'' (JStr (email contact));
              d1 = session_add d (Dirty (contact_id contact) f l e)
          in case session_commit d1 of
               Inl ex \<Rightarrow> (Inl ex, d1)
             | Inr d2 \<Rightarrow> (respond (jsonify (PSet [PStr ''User updates!!!''])) 200, d2))"

definition delete_contact :: "db \<Rightarrow> int \<Rightarrow> (exn + response) \<times> db" where
  "delete_contact d user_id =
     (case query_get d user_id of
        None \<Rightarrow> (respond (jsonify (PDict [(''message'', PStr ''User not found'')])) 400, d)
      | Some contact \<Rightarrow>
          let d1 = session_delete d contact
          in case session_commit d1 of
               Inl ex \<Rightarrow> (Inl ex, d1)
             | Inr d2 \<Rightarrow> (respond (jsonify (PSet [PStr ''User deleted!!!''])) 200, d2))"

text \<open>
  The stores reachable from the empty table: each request runs one handler in a
  new application context, and what it committed is the table of the next one.
\<close>

inductive reachable :: "contact list \<Rightarrow> bool" where
  empty: "reachable []"
| create: "reachable t \<Longrightarrow> reachable (table (snd (create_contact (app_context t) data)))"
| update: "reachable t \<Longrightarrow> reachable (table (snd (updata_contact (app_context t) uid data)))"
| delete: "reachable t \<Longrightarrow> reachable (table (snd (delete_contact (app_context t) uid)))"

text \<open>
  The store invariant: the primary key and the \<open>unique=True\<close> column identify a row.
\<close>

definition store_inv :: "contact list \<Rightarrow> bool" where
  "store_inv t \<longleftrightarrow> distinct (map contact_id t) \<and> distinct (map email t)"

text \<open>Two rows and a request body used as concrete inputs below.\<close>

definition alice :: contact where
  "alice = \<lparr>contact_id = 1, first_name = ''A'', last_name = ''B'', email = ''a@b.com''\<rparr>"

definition carol :: contact where
  "carol = \<lparr>contact_id = 2, first_name = ''C'', last_name = ''D'', email = ''c@d.com''\<rparr>"

definition alice_body :: body where
  "alice_body = [''firstName'' \<mapsto> JStr ''A'', ''lastName'' \<mapsto> JStr ''B'',
                 ''email'' \<mapsto> JStr ''a@b.com'']"

definition carol_body :: body where
  "carol_body = [''firstName'' \<mapsto> JStr ''C'', ''lastName'' \<mapsto> JStr ''D'',
                 ''email'' \<mapsto> JStr ''c@d.com'']"

section \<open>Evaluation lemmas\<close>

lemma query_get_None: "uid \<notin> set (map contact_id t) \<Longrightarrow> query_get (app_context t) uid = None"
  by (auto simp: query_get_def app_context_def find_None_iff)

lemma query_get_Some:
  "query_get (app_context t) uid = Some c \<Longrightarrow> c \<in> set t \<and> contact_id c = uid"
  by (auto simp: query_get_def app_context_def find_Some_iff)

lemma query_get_ex:
  "uid \<in> set (map contact_id t) \<Longrightarrow> \<exists>c. query_get (app_context t) uid = Some c"
  by (cases "query_get (app_context t) uid") (auto simp: query_get_def app_context_def find_None_iff)

lemma jsonify_message [simp]: "jsonify (PDict [(k, PStr m)]) = Inr (PDict [(k, PStr m)])"
  by (simp add: jsonify_def)

lemma jsonify_set [simp]: "jsonify (PSet xs) = Inl TypeError"
  by (simp add: jsonify_def)

lemma respond_Inr [simp]: "respond (Inr j) st = Inr (j, st)"
  by (simp add: respond_def)

lemma respond_Inl [simp]: "respond (Inl e) st = Inl e"
  by (simp add: respond_def)

lemma commit_new:
  "session_commit (session_add (app_context t) (New f l e))
     = (case insert_row t f l e of Inl ex \<Rightarrow> Inl ex | Inr t' \<Rightarrow> Inr (app_context t'))"
  by (simp add: session_commit_def session_add_def app_context_def split: sum.splits)

lemma commit_dirty:
  "session_commit (session_add (app_context t) (Dirty uid f l e))
     = (case update_row t uid f l e of Inl ex \<Rightarrow> Inl ex | Inr t' \<Rightarrow> Inr (app_context t'))"
  by (simp add: session_commit_def session_add_def app_context_def split: sum.splits)

lemma commit_deleted:
  "session_commit (session_delete (app_context t) c)
     = Inr (app_context (filter (\<lambda>r. contact_id r \<noteq> contact_id c) t))"
  by (simp add: session_commit_def session_delete_def app_context_def delete_row_def)

lemma rollback_add [simp]: "session_rollback (session_add (app_context t) p) = app_context t"
  by (simp add: session_rollback_def session_add_def app_context_def)

lemma insert_row_cases:
  "insert_row t f l e = Inl IntegrityError \<or> (\<exists>c. insert_row t f l e = Inr (t @ [c]))"
  by (cases "(t, f, l, e)" rule: insert_row.cases) auto

lemma find_self:
  "find (\<lambda>r. contact_id r = uid) t = Some c \<Longrightarrow> c \<in> set t \<and> contact_id c = uid"
  by (auto simp: find_Some_iff)

lemma serializable_to_json: "list_all serializable (map to_json t)"
  by (induction t) (simp_all add: to_json_def)

lemma get_contacts_eq:
  "get_contacts (app_context t) = Inr (PDict [(''contacts'', PList (map to_json t))], 200)"
  by (simp add: get_contacts_def query_all_def app_context_def jsonify_def serializable_to_json)

lemma create_ok:
  assumes "data ''firstName'' = Some (JStr f)" and "f \<noteq> []"
    and "data ''lastName'' = Some (JStr l)" and "l \<noteq> []"
    and "data ''email'' = Some (JStr e)" and "e \<noteq> []"
    and "e \<notin> set (map email t)"
  shows "create_contact (app_context t) data
           = (Inr (PDict [(''message'', PStr ''User Created'')], 201),
              app_context (t @ [\<lparr>contact_id = next_id t, first_name = f,
                                  last_name = l, email = e\<rparr>]))"
  using assms
  by (simp add: create_contact_def Let_def dict_get_def commit_new)


section \<open>Unknown ids\<close>

text \<open>
  C7: for an id that no row of the store has, the update handler and the delete
  handler both answer 400 with the message \<open>User not found\<close> (not 404), and
  the store is left as it was.
\<close>

theorem not_found_400:
  assumes "user_id \<notin> set (map contact_id t)"
  shows "updata_contact (app_context t) user_id data
           = (Inr (PDict [(''message'', PStr ''User not found'')], 400), app_context t)
       \<and> delete_contact (app_context t) user_id
           = (Inr (PDict [(''message'', PStr ''User not found'')], 400), app_context t)"
  using query_get_None [OF assms]
  by (simp add: updata_contact_def delete_contact_def)

theorem not_found_400_witness:
  "(7::int) \<notin> set (map contact_id [alice, carol])
   \<and> updata_contact (app_context [alice, carol]) 7 alice_body
        = (Inr (PDict [(''message'', PStr ''User not found'')], 400), app_context [alice, carol])
   \<and> delete_contact (app_context [alice, carol]) 7
        = (Inr (PDict [(''message'', PStr ''User not found'')], 400), app_context [alice, carol])"
proof -
  have h: "(7::int) \<notin> set (map contact_id [alice, carol])"
    by (simp add: alice_def carol_def)
  show ?thesis
    using h not_found_400 [OF h, of alice_body] by simp
qed

section \<open>Creating a contact\<close>

text \<open>
  C5: a create request in which \<open>firstName\<close>, \<open>lastName\<close> or \<open>email\<close> is missing,
  null or the empty string is answered with 400, and nothing is persisted: the
  store is the one the request found.
\<close>

theorem create_missing_field_400:
  assumes "\<exists>k \<in> {''firstName'', ''lastName'', ''email''}.
             data k = None \<or> data k = Some JNull \<or> data k = Some (JStr [])"
  shows "create_contact (app_context t) data
           = (Inr (PDict [(''message'',
                PStr ''You must include a first name, lasat name and email'')], 400),
              app_context t)"
proof -
  from assms have "\<not> truthy (dict_get data ''firstName'' JNull)
      \<or> \<not> truthy (dict_get data ''lastName'' JNull)
      \<or> \<not> truthy (dict_get data ''email'' JNull)"
    by (auto simp: dict_get_def)
  then show ?thesis
    by (simp add: create_contact_def Let_def)
qed

theorem create_missing_field_400_witness:
  "(\<exists>k \<in> {''firstName'', ''lastName'', ''email''}.
      (alice_body(''lastName'' := None)) k = None
      \<or> (alice_body(''lastName'' := None)) k = Some JNull
      \<or> (alice_body(''lastName'' := None)) k = Some (JStr []))
   \<and> create_contact (app_context [carol]) (alice_body(''lastName'' := None))
        = (Inr (PDict [(''message'',
             PStr ''You must include a first name, lasat name and email'')], 400),
           app_context [carol])"
proof -
  have h: "\<exists>k \<in> {''firstName'', ''lastName'', ''email''}.
      (alice_body(''lastName'' := None)) k = None
      \<or> (alice_body(''lastName'' := None)) k = Some JNull
      \<or> (alice_body(''lastName'' := None)) k = Some (JStr [])"
    by simp
  show ?thesis
    using h create_missing_field_400 [OF h, of "[carol]"] by blast
qed

text \<open>
  C4: when the store holds a contact with email \<open>e\<close>, a create request with email
  \<open>e\<close> is answered with 400 and the store is unchanged (and the session rolled
  back), so only the first contact with that email is kept.
\<close>

theorem create_duplicate_email_400:
  assumes "c \<in> set t" and "data ''email'' = Some (JStr (email c))"
  shows "status (fst (create_contact (app_context t) data)) = Some 400
       \<and> snd (create_contact (app_context t) data) = app_context t"
proof (cases "truthy (dict_get data ''firstName'' JNull) \<and> truthy (dict_get data ''lastName'' JNull)
              \<and> truthy (dict_get data ''email'' JNull)")
  case False
  then show ?thesis
    by (auto simp: create_contact_def Let_def status_def)
next
  case True
  then obtain f l where fl: "dict_get data ''firstName'' JNull = JStr f"
      "dict_get data ''lastName'' JNull = JStr l"
    by (metis truthy.elims(2))
  have e: "dict_get data ''email'' JNull = JStr (email c)"
    using assms(2) by (simp add: dict_get_def)
  have "insert_row t (JStr f) (JStr l) (JStr (email c)) = Inl IntegrityError"
    using assms(1) by simp
  then show ?thesis
    using True fl e by (simp add: create_contact_def Let_def commit_new status_def)
qed

theorem create_duplicate_email_400_witness:
  "alice \<in> set [alice, carol] \<and> alice_body ''email'' = Some (JStr (email alice))
   \<and> status (fst (create_contact (app_context [alice, carol]) alice_body)) = Some 400
   \<and> snd (create_contact (app_context [alice, carol]) alice_body) = app_context [alice, carol]"
proof -
  have h1: "alice \<in> set [alice, carol]" by simp
  have h2: "alice_body ''email'' = Some (JStr (email alice))"
    by (simp add: alice_body_def alice_def)
  show ?thesis
    using h1 h2 create_duplicate_email_400 [of alice "[alice, carol]" alice_body] by blast
qed

text \<open>
  C9: a create request with the three fields populated and an email that no row
  has is answered with 201 and the body \<open>{"message": "User Created"}\<close>; the list
  handler then answers 200 with the contacts of the store followed by the new
  contact, serialised as \<open>{id, firstName, lastName, email}\<close>.
\<close>

theorem create_then_list:
  assumes "data ''firstName'' = Some (JStr f)" and "f \<noteq> []"
    and "data ''lastName'' = Some (JStr l)" and "l \<noteq> []"
    and "data ''email'' = Some (JStr e)" and "e \<noteq> []"
    and "e \<notin> set (map email t)"
  shows "fst (create_contact (app_context t) data)
           = Inr (PDict [(''message'', PStr ''User Created'')], 201)
       \<and> get_contacts (app_context (table (snd (create_contact (app_context t) data))))
           = Inr (PDict [(''contacts'', PList (map to_json t @
                   [PDict [(''id'', PInt (next_id t)), (''firstName'', PStr f),
                           (''lastName'', PStr l), (''email'', PStr e)]]))], 200)"
proof -
  have "table (app_context (t @ [\<lparr>contact_id = next_id t, first_name = f,
                                  last_name = l, email = e\<rparr>]))
          = t @ [\<lparr>contact_id = next_id t, first_name = f, last_name = l, email = e\<rparr>]"
    by (simp add: app_context_def)
  then show ?thesis
    by (simp add: create_ok [OF assms] get_contacts_eq to_json_def)
qed

theorem create_then_list_witness:
  "fst (create_contact (app_context []) alice_body)
     = Inr (PDict [(''message'', PStr ''User Created'')], 201)
   \<and> get_contacts (app_context (table (snd (create_contact (app_context []) alice_body))))
     = Inr (PDict [(''contacts'', PList
              [PDict [(''id'', PInt 1), (''firstName'', PStr ''A''),
                      (''lastName'', PStr ''B''), (''email'', PStr ''a@b.com'')]])], 200)"
  using create_then_list [of alice_body "''A''" "''B''" "''a@b.com''" "[]"]
  by (simp add: alice_body_def next_id_def)

section \<open>Updating a contact\<close>

text \<open>
  C10: for an id of the store, an update whose body is the empty object commits
  without a storage error and leaves the store as it was: no row changes, the
  targeted one included, and the session holds nothing uncommitted.
\<close>

theorem update_empty_body_noop:
  assumes "user_id \<in> set (map contact_id t)"
  shows "fst (updata_contact (app_context t) user_id Map.empty) \<noteq> Inl IntegrityError
       \<and> fst (updata_contact (app_context t) user_id Map.empty) \<noteq> Inl SQLAlchemyError
       \<and> snd (updata_contact (app_context t) user_id Map.empty) = app_context t"
proof -
  from query_get_ex [OF assms] obtain c where c: "query_get (app_context t) user_id = Some c"
    by blast
  then have f: "find (\<lambda>r. contact_id r = user_id) t = Some c"
    by (simp add: query_get_def app_context_def)
  have "contact_id c = user_id" using query_get_Some [OF c] by simp
  then have "update_row t (contact_id c) (JStr (first_name c)) (JStr (last_name c)) (JStr (email c)) = Inr t"
    using f by simp
  then show ?thesis
    using c by (simp add: updata_contact_def Let_def dict_get_def commit_dirty)
qed

theorem update_empty_body_noop_witness:
  "(2::int) \<in> set (map contact_id [alice, carol])
   \<and> fst (updata_contact (app_context [alice, carol]) 2 Map.empty) \<noteq> Inl IntegrityError
   \<and> fst (updata_contact (app_context [alice, carol]) 2 Map.empty) \<noteq> Inl SQLAlchemyError
   \<and> snd (updata_contact (app_context [alice, carol]) 2 Map.empty) = app_context [alice, carol]"
proof -
  have h: "(2::int) \<in> set (map contact_id [alice, carol])"
    by (simp add: carol_def)
  show ?thesis
    using h update_empty_body_noop [OF h] by blast
qed

section \<open>The store invariant\<close>

lemma table_app_context [simp]: "table (app_context t) = t"
  by (simp add: app_context_def)

lemma table_session_add [simp]: "table (session_add d p) = table d"
  by (simp add: session_add_def)

lemma distinct_id_eq:
  "distinct (map contact_id t) \<Longrightarrow> c \<in> set t \<Longrightarrow> r \<in> set t
     \<Longrightarrow> contact_id r = contact_id c \<Longrightarrow> r = c"
  by (auto simp: distinct_map dest: inj_onD)

lemma find_distinct:
  "distinct (map contact_id t) \<Longrightarrow> c \<in> set t
     \<Longrightarrow> find (\<lambda>r. contact_id r = contact_id c) t = Some c"
  by (induction t) auto

lemma next_id_gt: "c \<in> set t \<Longrightarrow> contact_id c < next_id t"
  unfolding next_id_def by (induction t) auto

lemma next_id_fresh: "next_id t \<notin> contact_id ` set t"
  using next_id_gt [of _ t] by force

lemma insert_row_inv:
  assumes "store_inv t" and "insert_row t f l e = Inr t'"
  shows "store_inv t'"
proof (cases "(t, f, l, e)" rule: insert_row.cases)
  case (1 t0 f0 l0 e0)
  then show ?thesis
    using assms next_id_fresh [of t]
    by (auto simp: store_inv_def split: if_splits)
qed (use assms in auto)

lemma distinct_email_upd:
  "distinct (map contact_id t) \<Longrightarrow> distinct (map email t) \<Longrightarrow> e \<notin> set (map email t)
     \<Longrightarrow> distinct (map (\<lambda>r. if contact_id r = uid then e else email r) t)"
  by (induction t) (auto simp: image_iff)

lemma email_upd_same:
  assumes "distinct (map contact_id t)" and "c \<in> set t"
  shows "map (\<lambda>r. if contact_id r = contact_id c then email c else email r) t = map email t"
proof (rule map_cong [OF refl])
  fix r assume r: "r \<in> set t"
  show "(if contact_id r = contact_id c then email c else email r) = email r"
  proof (cases "contact_id r = contact_id c")
    case True
    then have "r = c" using distinct_id_eq [OF assms r] by simp
    then show ?thesis by simp
  next
    case False
    then show ?thesis by simp
  qed
qed

lemma upd_ids:
  "map contact_id (map (\<lambda>r. if contact_id r = uid
      then r\<lparr>first_name := f, last_name := l, email := e\<rparr> else r) t) = map contact_id t"
  by (induction t) simp_all

lemma upd_emails:
  "map email (map (\<lambda>r. if contact_id r = uid
      then r\<lparr>first_name := f, last_name := l, email := e\<rparr> else r) t)
     = map (\<lambda>r. if contact_id r = uid then e else email r) t"
  by (induction t) simp_all

lemma upd_inv:
  assumes "store_inv t" and "c \<in> set t" and "e = email c \<or> e \<notin> set (map email t)"
  shows "store_inv (map (\<lambda>r. if contact_id r = contact_id c
      then r\<lparr>first_name := f, last_name := l, email := e\<rparr> else r) t)"
proof -
  have d: "distinct (map contact_id t)" "distinct (map email t)"
    using assms(1) by (simp_all add: store_inv_def)
  have "distinct (map (\<lambda>r. if contact_id r = contact_id c then e else email r) t)"
  proof (cases "e = email c")
    case True
    have "map (\<lambda>r. if contact_id r = contact_id c then e else email r) t = map email t"
      unfolding True by (rule email_upd_same [OF d(1) assms(2)])
    then show ?thesis by (simp only: d(2))
  next
    case False
    then have "e \<notin> set (map email t)" using assms(3) by simp
    then show ?thesis by (rule distinct_email_upd [OF d])
  qed
  then show ?thesis
    unfolding store_inv_def upd_ids upd_emails using d(1) by simp
qed

lemma update_row_inv:
  assumes "store_inv t" and "update_row t uid f l e = Inr t'"
  shows "store_inv t'"
proof (cases "(t, uid, f, l, e)" rule: update_row.cases)
  case (1 t0 uid0 f0 l0 e0)
  show ?thesis
  proof (cases "find (\<lambda>r. contact_id r = uid) t")
    case None
    then show ?thesis using assms 1 by simp
  next
    case (Some c)
    then have c: "c \<in> set t" "contact_id c = uid" by (auto simp: find_Some_iff)
    let ?u = "\<lambda>r. if contact_id r = contact_id c
                 then r\<lparr>first_name := f0, last_name := l0, email := e0\<rparr> else r"
    have t': "t' = t \<or> (t' = map ?u t \<and> (e0 = email c \<or> e0 \<notin> set (map email t)))"
      using assms(2) 1 Some c(2) by (simp split: if_splits)
    then show ?thesis
    proof
      assume "t' = t" then show ?thesis using assms(1) by simp
    next
      assume a: "t' = map ?u t \<and> (e0 = email c \<or> e0 \<notin> set (map email t))"
      then show ?thesis using upd_inv [OF assms(1) c(1), where e = e0 and f = f0 and l = l0] by simp
    qed
  qed
qed (use assms in simp_all)

lemma filter_inv: "store_inv t \<Longrightarrow> store_inv (filter P t)"
  by (simp add: store_inv_def distinct_map_filter)

lemma create_table:
  "table (snd (create_contact (app_context t) data)) = t
   \<or> (\<exists>f l e. insert_row t f l e = Inr (table (snd (create_contact (app_context t) data))))"
proof (cases "\<not> truthy (dict_get data ''firstName'' JNull)
            \<or> \<not> truthy (dict_get data ''lastName'' JNull)
            \<or> \<not> truthy (dict_get data ''email'' JNull)")
  case True
  then show ?thesis by (simp add: create_contact_def Let_def)
next
  case False
  let ?f = "dict_get data ''firstName'' JNull"
  let ?l = "dict_get data ''lastName'' JNull"
  let ?e = "dict_get data ''email'' JNull"
  show ?thesis
  proof (cases "insert_row t ?f ?l ?e")
    case (Inl ex)
    then have "table (snd (create_contact (app_context t) data)) = t"
      using False by (cases ex) (simp_all add: create_contact_def Let_def commit_new)
    then show ?thesis by simp
  next
    case (Inr t')
    then have "table (snd (create_contact (app_context t) data)) = t'"
      using False by (simp add: create_contact_def Let_def commit_new)
    then show ?thesis using Inr by auto
  qed
qed

lemma update_table:
  "table (snd (updata_contact (app_context t) uid data)) = t
   \<or> (\<exists>f l e. update_row t uid f l e = Inr (table (snd (updata_contact (app_context t) uid data))))"
proof (cases "query_get (app_context t) uid")
  case None
  then show ?thesis by (simp add: updata_contact_def)
next
  case (Some c)
  then have uid: "contact_id c = uid" using query_get_Some by blast
  let ?f = "dict_get data ''firstName'' (JStr (first_name c))"
  let ?l = "dict_get data ''lastName'' (JStr (last_name c))"
  let ?e = "dict_get data ''email'' (JStr (email c))"
  show ?thesis
  proof (cases "update_row t uid ?f ?l ?e")
    case (Inl ex)
    then show ?thesis
      using Some uid by (simp add: updata_contact_def Let_def commit_dirty)
  next
    case (Inr t')
    then have "table (snd (updata_contact (app_context t) uid data)) = t'"
      using Some uid by (simp add: updata_contact_def Let_def commit_dirty)
    then show ?thesis using Inr by auto
  qed
qed

lemma delete_table:
  "table (snd (delete_contact (app_context t) uid)) = t
   \<or> table (snd (delete_contact (app_context t) uid)) = filter (\<lambda>r. contact_id r \<noteq> uid) t"
proof (cases "query_get (app_context t) uid")
  case None
  then show ?thesis by (simp add: delete_contact_def)
next
  case (Some c)
  then have uid: "contact_id c = uid" using query_get_Some by blast
  then show ?thesis
    using Some by (simp add: delete_contact_def Let_def commit_deleted)
qed

lemma reachable_inv: "reachable t \<Longrightarrow> store_inv t"
proof (induction rule: reachable.induct)
  case empty
  show ?case by (simp add: store_inv_def)
next
  case (create t data)
  then show ?case
    using create_table [of t data] insert_row_inv by auto
next
  case (update t uid data)
  then show ?case
    using update_table [of t uid data] update_row_inv by auto
next
  case (delete t uid)
  then show ?case
    using delete_table [of t uid] filter_inv by auto
qed

lemmas eval_defs = create_contact_def updata_contact_def delete_contact_def Let_def dict_get_def
  query_get_def session_commit_def session_add_def session_delete_def session_rollback_def
  app_context_def next_id_def delete_row_def alice_def carol_def alice_body_def carol_body_def

lemma create_alice: "table (snd (create_contact (app_context []) alice_body)) = [alice]"
  by (simp add: eval_defs)

lemma create_carol: "table (snd (create_contact (app_context [alice]) carol_body)) = [alice, carol]"
  by (simp add: eval_defs)

lemma reachable_alice_carol: "reachable [alice, carol]"
  using reachable.create [OF reachable.create [OF reachable.empty, of alice_body], of carol_body]
  by (simp only: create_alice create_carol)

text \<open>
  C1: email uniqueness is an invariant of the store. In every table reachable
  from the empty one through create, update and delete requests, no two rows
  have the same email.
\<close>

theorem email_unique:
  assumes "reachable t"
  shows "distinct (map email t)"
  using reachable_inv [OF assms] by (simp add: store_inv_def)

theorem email_unique_witness:
  "reachable [alice, carol] \<and> distinct (map email [alice, carol])"
  using reachable_alice_carol email_unique [OF reachable_alice_carol] by simp

section \<open>The frame of an update\<close>

lemma update_row_err: "update_row t uid f l e = Inl ex \<Longrightarrow> ex = IntegrityError"
  by (cases "(t, uid, f, l, e)" rule: update_row.cases)
     (auto split: option.splits if_splits)

lemma update_row_strs:
  "update_row t uid f l e = Inr t' \<Longrightarrow> \<exists>f0 l0 e0. f = JStr f0 \<and> l = JStr l0 \<and> e = JStr e0"
  by (cases "(t, uid, f, l, e)" rule: update_row.cases) auto

lemma map_upd_row:
  assumes "distinct (map contact_id t)" and "c \<in> set t"
  shows "map (\<lambda>r. if contact_id r = contact_id c then g r else r) t
           = map (\<lambda>r. if contact_id r = contact_id c then g c else r) t"
proof (rule map_cong [OF refl])
  fix r assume r: "r \<in> set t"
  show "(if contact_id r = contact_id c then g r else r)
          = (if contact_id r = contact_id c then g c else r)"
  proof (cases "contact_id r = contact_id c")
    case True
    then have "r = c" using distinct_id_eq [OF assms r] by simp
    then show ?thesis by simp
  next
    case False
    then show ?thesis by simp
  qed
qed

lemma map_same_row:
  assumes "distinct (map contact_id t)" and "c \<in> set t"
  shows "map (\<lambda>r. if contact_id r = contact_id c then c else r) t = t"
  using map_upd_row [OF assms, of "\<lambda>r. r"] by simp

lemma update_row_ok:
  assumes "distinct (map contact_id t)" and "c \<in> set t"
    and "update_row t (contact_id c) (JStr f) (JStr l) (JStr e) = Inr t'"
  shows "t' = map (\<lambda>r. if contact_id r = contact_id c
                        then c\<lparr>first_name := f, last_name := l, email := e\<rparr> else r) t"
proof -
  have fnd: "find (\<lambda>r. contact_id r = contact_id c) t = Some c"
    by (rule find_distinct [OF assms(1,2)])
  show ?thesis
  proof (cases "f = first_name c \<and> l = last_name c \<and> e = email c")
    case True
    then have "t' = t" using assms(3) fnd by simp
    moreover have "c\<lparr>first_name := f, last_name := l, email := e\<rparr> = c"
      using True by simp
    ultimately show ?thesis by (metis map_same_row [OF assms(1,2)])
  next
    case False
    then have "t' = map (\<lambda>r. if contact_id r = contact_id c
                        then r\<lparr>first_name := f, last_name := l, email := e\<rparr> else r) t"
      using assms(3) fnd by (simp split: if_splits)
    then show ?thesis
      using map_upd_row [OF assms(1,2),
          of "\<lambda>r. r\<lparr>first_name := f, last_name := l, email := e\<rparr>"] by simp
  qed
qed

lemma update_row_rejects:
  assumes "find (\<lambda>r. contact_id r = uid) t = Some c"
  shows "update_row t uid f l e = Inl IntegrityError
     \<longleftrightarrow> f = JNull \<or> l = JNull \<or> e = JNull
         \<or> (\<exists>s. e = JStr s \<and> s \<noteq> email c \<and> s \<in> set (map email t))"
  using assms by (cases f; cases l; cases e) auto

lemma dict_get_null: "dict_get data k (JStr old) = JNull \<longleftrightarrow> data k = Some JNull"
  by (simp add: dict_get_def split: option.splits)

lemma dict_get_new:
  "(\<exists>s. dict_get data k (JStr old) = JStr s \<and> s \<noteq> old \<and> P s)
     \<longleftrightarrow> (\<exists>s. data k = Some (JStr s) \<and> s \<noteq> old \<and> P s)"
  by (auto simp: dict_get_def split: option.splits)

text \<open>
  C2, as the code has it: an update of an existing contact replaces the row of
  that id by a row \<open>c'\<close> of the same id and leaves every other row as it was; each
  field absent from the body keeps its value in \<open>c'\<close>. When the body carries a
  null for one of the three fields, or an email other than the contact's own that
  a row of the table already holds, the table's constraints reject the commit and
  \<open>c'\<close> is the old row: nothing changes. In every other case each field present
  in the body has in \<open>c'\<close> the string the body gives it.
\<close>

theorem update_frame:
  assumes "distinct (map contact_id t)" and "c \<in> set t"
  shows "\<exists>c'. table (snd (updata_contact (app_context t) (contact_id c) data))
                = map (\<lambda>r. if contact_id r = contact_id c then c' else r) t
            \<and> contact_id c' = contact_id c
            \<and> (data ''firstName'' = None \<longrightarrow> first_name c' = first_name c)
            \<and> (data ''lastName'' = None \<longrightarrow> last_name c' = last_name c)
            \<and> (data ''email'' = None \<longrightarrow> email c' = email c)
            \<and> (if data ''firstName'' = Some JNull \<or> data ''lastName'' = Some JNull
                   \<or> data ''email'' = Some JNull
                   \<or> (\<exists>s. data ''email'' = Some (JStr s) \<and> s \<noteq> email c
                          \<and> s \<in> set (map email t))
                then c' = c
                else (\<forall>s. data ''firstName'' = Some (JStr s) \<longrightarrow> first_name c' = s)
                   \<and> (\<forall>s. data ''lastName'' = Some (JStr s) \<longrightarrow> last_name c' = s)
                   \<and> (\<forall>s. data ''email'' = Some (JStr s) \<longrightarrow> email c' = s))"
proof -
  let ?f = "dict_get data ''firstName'' (JStr (first_name c))"
  let ?l = "dict_get data ''lastName'' (JStr (last_name c))"
  let ?e = "dict_get data ''email'' (JStr (email c))"
  let ?V = "data ''firstName'' = Some JNull \<or> data ''lastName'' = Some JNull
            \<or> data ''email'' = Some JNull
            \<or> (\<exists>s. data ''email'' = Some (JStr s) \<and> s \<noteq> email c \<and> s \<in> set (map email t))"
  have fnd: "find (\<lambda>r. contact_id r = contact_id c) t = Some c"
    by (rule find_distinct [OF assms])
  have q: "query_get (app_context t) (contact_id c) = Some c"
    using fnd by (simp add: query_get_def)
  have h: "updata_contact (app_context t) (contact_id c) data
        = (case update_row t (contact_id c) ?f ?l ?e of
             Inl ex \<Rightarrow> (Inl ex, session_add (app_context t) (Dirty (contact_id c) ?f ?l ?e))
           | Inr t' \<Rightarrow> (Inl TypeError, app_context t'))"
    using q by (simp add: updata_contact_def Let_def commit_dirty split: sum.splits)
  have rej: "update_row t (contact_id c) ?f ?l ?e = Inl IntegrityError \<longleftrightarrow> ?V"
    unfolding update_row_rejects [OF fnd] dict_get_null
    using dict_get_new [of data "''email''" "email c" "\<lambda>s. s \<in> set (map email t)"]
    by simp
  show ?thesis
  proof (cases ?V)
    case True
    then have "update_row t (contact_id c) ?f ?l ?e = Inl IntegrityError"
      using rej by simp
    then have "table (snd (updata_contact (app_context t) (contact_id c) data)) = t"
      using h by simp
    then have "table (snd (updata_contact (app_context t) (contact_id c) data))
        = map (\<lambda>r. if contact_id r = contact_id c then c else r) t"
      using map_same_row [OF assms] by simp
    then show ?thesis
      using True by (intro exI [of _ c]) simp
  next
    case False
    then have "update_row t (contact_id c) ?f ?l ?e \<noteq> Inl IntegrityError"
      using rej by simp
    then obtain t' where Inr: "update_row t (contact_id c) ?f ?l ?e = Inr t'"
      using update_row_err [of t "contact_id c" ?f ?l ?e]
      by (cases "update_row t (contact_id c) ?f ?l ?e") auto
    then obtain f0 l0 e0 where s: "?f = JStr f0" "?l = JStr l0" "?e = JStr e0"
      using update_row_strs by blast
    let ?c' = "c\<lparr>first_name := f0, last_name := l0, email := e0\<rparr>"
    have "t' = map (\<lambda>r. if contact_id r = contact_id c then ?c' else r) t"
      using update_row_ok [OF assms] Inr s by simp
    then have tab: "table (snd (updata_contact (app_context t) (contact_id c) data))
             = map (\<lambda>r. if contact_id r = contact_id c then ?c' else r) t"
      using h Inr by simp
    have fr: "data ''firstName'' = None \<longrightarrow> f0 = first_name c"
        "data ''lastName'' = None \<longrightarrow> l0 = last_name c"
        "data ''email'' = None \<longrightarrow> e0 = email c"
      using s by (auto simp: dict_get_def)
    have pr: "\<forall>s. data ''firstName'' = Some (JStr s) \<longrightarrow> f0 = s"
        "\<forall>s. data ''lastName'' = Some (JStr s) \<longrightarrow> l0 = s"
        "\<forall>s. data ''email'' = Some (JStr s) \<longrightarrow> e0 = s"
      using s by (auto simp: dict_get_def)
    have "table (snd (updata_contact (app_context t) (contact_id c) data))
                = map (\<lambda>r. if contact_id r = contact_id c then ?c' else r) t
            \<and> contact_id ?c' = contact_id c
            \<and> (data ''firstName'' = None \<longrightarrow> first_name ?c' = first_name c)
            \<and> (data ''lastName'' = None \<longrightarrow> last_name ?c' = last_name c)
            \<and> (data ''email'' = None \<longrightarrow> email ?c' = email c)
            \<and> (\<forall>s. data ''firstName'' = Some (JStr s) \<longrightarrow> first_name ?c' = s)
            \<and> (\<forall>s. data ''lastName'' = Some (JStr s) \<longrightarrow> last_name ?c' = s)
            \<and> (\<forall>s. data ''email'' = Some (JStr s) \<longrightarrow> email ?c' = s)"
      using tab fr pr by simp
    then show ?thesis
      using False by (intro exI [of _ ?c']) (simp only: if_False, blast)
  qed
qed

theorem update_frame_witness:
  "distinct (map contact_id [alice, carol]) \<and> carol \<in> set [alice, carol]
   \<and> table (snd (updata_contact (app_context [alice, carol]) (contact_id carol)
                   [''email'' \<mapsto> JStr ''new@x.com'']))
       = [alice, carol\<lparr>email := ''new@x.com''\<rparr>]"
proof -
  let ?d = "[''email'' \<mapsto> JStr ''new@x.com'']"
  have h1: "distinct (map contact_id [alice, carol])" by (simp add: alice_def carol_def)
  have h2: "carol \<in> set [alice, carol]" by simp
  have nv: "(?d ''firstName'' = Some JNull \<or> ?d ''lastName'' = Some JNull
        \<or> ?d ''email'' = Some JNull
        \<or> (\<exists>s. ?d ''email'' = Some (JStr s)
               \<and> s \<noteq> email carol \<and> s \<in> set (map email [alice, carol]))) = False"
    by (simp add: alice_def carol_def)
  have a: "?d ''firstName'' = None" "?d ''lastName'' = None"
      "?d ''email'' = Some (JStr ''new@x.com'')"
    by simp_all
  note th = update_frame [OF h1 h2, of ?d, unfolded nv if_False]
  from th a obtain c' where c':
      "table (snd (updata_contact (app_context [alice, carol]) (contact_id carol) ?d))
         = map (\<lambda>r. if contact_id r = contact_id carol then c' else r) [alice, carol]"
      "contact_id c' = contact_id carol"
      "first_name c' = first_name carol" "last_name c' = last_name carol"
      "email c' = ''new@x.com''"
    by blast
  have "c' = carol\<lparr>email := ''new@x.com''\<rparr>"
    using c'(2-5) by simp
  then show ?thesis
    using h1 h2 c'(1) by (simp add: alice_def carol_def)
qed

text \<open>
  C2 as the spec words it, every field present in the body changed, does not hold:
  with the two contacts of the store, an update of contact 2 whose body gives the
  email of contact 1 is rejected by the unique constraint, and contact 2 keeps
  its email.
\<close>

theorem update_present_email_not_applied:
  "table (snd (updata_contact (app_context [alice, carol]) 2
                 [''email'' \<mapsto> JStr ''a@b.com'']))
     = [alice, carol]
   \<and> contact_id carol = 2 \<and> email carol = ''c@d.com''"
  by (simp add: eval_defs)

section \<open>Where the handlers leave their documented behaviour\<close>

text \<open>
  C3: storage failures are not all caught at the handler boundary. With the two
  contacts of the store, an update of contact 2 to the email of contact 1 violates
  the unique constraint at commit; \<open>updata_contact\<close> has no \<open>try\<close> around
  \<open>db.session.commit()\<close>, so the \<open>IntegrityError\<close> leaves the handler: no 400
  response is built and the session is not rolled back (the unit of work is still
  pending). \<open>create_contact\<close> catches the same failure and rolls back.
\<close>

theorem update_integrity_error_escapes:
  "updata_contact (app_context [alice, carol]) 2 [''email'' \<mapsto> JStr ''a@b.com'']
     = (Inl IntegrityError,
        \<lparr>table = [alice, carol],
         session = [Dirty 2 (JStr ''C'') (JStr ''D'') (JStr ''a@b.com'')]\<rparr>)"
  by (simp add: eval_defs)

text \<open>
  C6: for an id of the store, neither the update handler nor the delete handler
  answers 200. Both commit (the row is changed, respectively removed, and no later
  list contains the removed row), and then hand the set literal
  \<open>{"User updates!!!"}\<close>, respectively \<open>{"User deleted!!!"}\<close>, to \<open>jsonify\<close>,
  which raises \<open>TypeError\<close>.
\<close>

theorem update_delete_raise_type_error:
  "updata_contact (app_context [alice, carol]) 2 [''email'' \<mapsto> JStr ''new@x.com'']
     = (Inl TypeError, app_context [alice, carol\<lparr>email := ''new@x.com''\<rparr>])
   \<and> delete_contact (app_context [alice, carol]) 2 = (Inl TypeError, app_context [alice])"
  by (simp add: eval_defs)

text \<open>
  C8: a reachable store can hold an empty \<open>first_name\<close>. \<open>create_contact\<close> rejects
  empty fields, but \<open>updata_contact\<close> assigns whatever the body carries, and
  \<open>nullable=False\<close> only excludes \<open>None\<close>: after the two creates, an update of
  contact 1 with \<open>{"firstName": ""}\<close> commits the empty string.
\<close>

theorem update_stores_empty_first_name:
  "reachable [alice\<lparr>first_name := []\<rparr>, carol]
   \<and> table (snd (updata_contact (app_context [alice, carol]) 1 [''firstName'' \<mapsto> JStr []]))
       = [alice\<lparr>first_name := []\<rparr>, carol]"
proof -
  have e: "table (snd (updata_contact (app_context [alice, carol]) 1 [''firstName'' \<mapsto> JStr []]))
       = [alice\<lparr>first_name := []\<rparr>, carol]"
    by (simp add: eval_defs)
  show ?thesis
    using reachable.update [OF reachable_alice_carol, of 1 "[''firstName'' \<mapsto> JStr []]"] e
    by (simp only:)
qed

end
